theory Spec2Isabelle
  imports Complex_Main "HOL-Library.List_Lexorder" "HOL-Library.Char_ord"
begin

section \<open>Values shared by the scripts\<close>

text \<open>
  A Python \<open>float\<close> as the scripts see it: a finite value, one of the two infinities, or
  NaN. Finite values are idealised as reals. The arithmetic done on them below is the
  compass computation, whose constants (360, 11.25, 22.5) are exact binary fractions, and
  the unit conversion of the wind speeds, whose rounding is left as a parameter.
  Strings are lists of 8-bit code points.
\<close>

datatype pyfloat = Fin real | PInf | NInf | NaN

datatype py_error = ValueError | OperationalError

section \<open>Snapshot exporter: compass labels (\<open>sqlite_to_json.py\<close>)\<close>

definition DIRS_16 :: "string list" where
  "DIRS_16 = [''N'', ''NNE'', ''NE'', ''ENE'', ''E'', ''ESE'', ''SE'', ''SSE'',
              ''S'', ''SSW'', ''SW'', ''WSW'', ''W'', ''WNW'', ''NW'', ''NNW'']"

text \<open>Python's \<open>x % m\<close> on finite floats with a positive modulus: the result is in \<open>[0, m)\<close>.\<close>

definition float_mod :: "real \<Rightarrow> real \<Rightarrow> real" where
  "float_mod x m = x - m * of_int \<lfloor>x / m\<rfloor>"

text \<open>
  \<open>degrees_to_cardinal(deg)\<close>. \<open>None\<close> and NaN give \<open>None\<close>. An infinity passes the
  \<open>isnan\<close> test, \<open>d % 360.0\<close> is then NaN, and \<open>int(nan)\<close> raises \<open>ValueError\<close>.
\<close>

fun degrees_to_cardinal :: "pyfloat option \<Rightarrow> py_error + string option" where
  "degrees_to_cardinal None = Inr None"
| "degrees_to_cardinal (Some NaN) = Inr None"
| "degrees_to_cardinal (Some PInf) = Inl ValueError"
| "degrees_to_cardinal (Some NInf) = Inl ValueError"
| "degrees_to_cardinal (Some (Fin x)) =
     (let d = float_mod x 360;
          idx = \<lfloor>(d + 11.25) / 22.5\<rfloor>
      in Inr (Some (DIRS_16 ! nat (idx mod 16))))"


section \<open>Ingestion (\<open>buoy_to_influx_sqlite.py\<close>)\<close>

subsection \<open>Dictionaries and text\<close>

text \<open>
  A Python \<open>dict\<close> keeps insertion order: assigning to a key that is present replaces the
  value in place, assigning to a new key appends.
\<close>

fun dict_set :: "'k \<Rightarrow> 'v \<Rightarrow> ('k \<times> 'v) list \<Rightarrow> ('k \<times> 'v) list" where
  "dict_set k v [] = [(k, v)]"
| "dict_set k v ((k', v') # kvs) =
     (if k' = k then (k, v) # kvs else (k', v') # dict_set k v kvs)"

text \<open>\<open>text.replace("Z", "+00:00")\<close>.\<close>

definition replace_Z :: "string \<Rightarrow> string" where
  "replace_Z s = concat (map (\<lambda>c. if c = CHR ''Z'' then ''+00:00'' else [c]) s)"

text \<open>\<open>Path.name\<close>: the last component of a path.\<close>

definition path_name :: "string \<Rightarrow> string" where
  "path_name p = rev (takeWhile (\<lambda>c. c \<noteq> CHR ''/'') (rev p))"

text \<open>\<open>"\n".join(lines)\<close>.\<close>

fun join_nl :: "string list \<Rightarrow> string" where
  "join_nl [] = []"
| "join_nl [l] = l"
| "join_nl (l # m # ls) = l @ CHR 0x0A # join_nl (m # ls)"

text \<open>
  The line boundaries of \<open>str.splitlines\<close> among the 8-bit code points: LF, VT, FF, CR,
  FS, GS, RS and NEL; CR followed by LF is one boundary.
\<close>

definition linebreak :: "char \<Rightarrow> bool" where
  "linebreak c = (c \<in> set [CHR 0x0A, CHR 0x0B, CHR 0x0C, CHR 0x0D, CHR 0x1C, CHR 0x1D, CHR 0x1E, CHR 0x85])"

fun splitlines_from :: "string \<Rightarrow> string \<Rightarrow> string list" where
  "splitlines_from cur [] = (if cur = [] then [] else [rev cur])"
| "splitlines_from cur (c # cs) =
     (if c = CHR 0x0D then
        (case cs of
           [] \<Rightarrow> [rev cur]
         | d # ds \<Rightarrow> if d = CHR 0x0A then rev cur # splitlines_from [] ds
                     else rev cur # splitlines_from [] (d # ds))
      else if linebreak c then rev cur # splitlines_from [] cs
      else splitlines_from (c # cur) cs)"

definition splitlines :: "string \<Rightarrow> string list" where
  "splitlines s = splitlines_from [] s"


subsection \<open>Documents and the field table\<close>

text \<open>
  The part of a parsed SWOB-ML document that the script reads: the text of the first
  \<open>timePosition\<close> element (\<open>None\<close> when there is no such element, \<open>Some None\<close> when it has
  no text) and, in document order, the \<open>name\<close> and \<open>value\<close> attributes of every
  \<open>element\<close> node (\<open>None\<close> for a missing attribute).
\<close>

type_synonym element = "string option \<times> string option"

record document =
  timePosition :: "string option option"
  elements :: "element list"

definition EXPECTED_FIELDS :: "string list" where
  "EXPECTED_FIELDS =
     [''wave_height_sig'', ''wave_height_peak'', ''wave_period_sig'', ''wave_period_avg'',
      ''wave_period_peak'', ''wave_direction_avg'', ''wave_direction_peak'', ''wind_speed'',
      ''wind_gust'', ''wind_direction'', ''air_temp'', ''sea_temp'', ''pressure'']"

definition FIELD_MAP :: "(string \<times> string) list" where
  "FIELD_MAP =
     [(''sig_wave_hgt_pst20mts'', ''wave_height_sig''),
      (''avg_sig_wave_hgt_pst20mts'', ''wave_height_sig''),
      (''sig_wave_hgt_pst35mts_10mts_ago'', ''wave_height_sig''),
      (''pk_wave_hgt_pst20mts'', ''wave_height_peak''),
      (''pk_wave_hgt_pst35mts_10mts_ago'', ''wave_height_peak''),
      (''avg_wave_pd_pst20mts'', ''wave_period_avg''),
      (''pk_wave_pd_pst20mts'', ''wave_period_peak''),
      (''pk_wave_pd_pst35mts_10mts_ago'', ''wave_period_peak''),
      (''avg_wave_dir_pst20mts'', ''wave_direction_avg''),
      (''avg_pk_wave_dir_pst20mts'', ''wave_direction_peak''),
      (''avg_wnd_spd_pst10mts'', ''wind_speed''),
      (''avg_wnd_spd_pst10mts_1'', ''wind_speed''),
      (''max_avg_wnd_spd_pst10mts'', ''wind_gust''),
      (''max_avg_wnd_spd_pst10mts_1'', ''wind_gust''),
      (''max_wnd_spd_pst10mts'', ''wind_gust''),
      (''avg_wnd_dir_pst10mts'', ''wind_direction''),
      (''avg_air_temp_pst10mts'', ''air_temp''),
      (''avg_sea_sfc_temp_pst10mts'', ''sea_temp''),
      (''avg_stn_pres_pst10mts'', ''pressure'')]"

text \<open>
  What the script takes from outside: reading and parsing a file (\<open>ET.parse\<close>; \<open>None\<close>
  when it raises), \<open>datetime.fromisoformat\<close> followed by \<open>int(timestamp.timestamp())\<close>
  (\<open>None\<close> when it raises), \<open>float\<close> on a string (\<open>None\<close> for \<open>ValueError\<close>), and
  whether the Influx client accepts the point of a given file.
\<close>

record env =
  read_xml :: "string \<Rightarrow> document option"
  fromisoformat :: "string \<Rightarrow> int option"
  py_float :: "string \<Rightarrow> pyfloat option"
  influx_accepts :: "string \<Rightarrow> bool"

subsection \<open>\<open>parse_and_collect_fields\<close>\<close>

text \<open>
  The first loop: stop at the first \<open>wmo_id_extnd\<close> with a non-empty value; remember the
  last non-empty \<open>wmo_synop_id\<close> seen before it. The result is \<open>buoy_id or synop_id\<close>.
\<close>

fun find_station :: "element list \<Rightarrow> string option \<Rightarrow> string option" where
  "find_station [] synop_id = synop_id"
| "find_station ((name, val) # es) synop_id =
     (if name = Some ''wmo_id_extnd'' \<and> val \<noteq> None \<and> val \<noteq> Some [] then val
      else if name = Some ''wmo_synop_id'' \<and> val \<noteq> None \<and> val \<noteq> Some []
           then find_station es val
      else find_station es synop_id)"

text \<open>
  The second loop, over the elements in document order; the table is only looked up by
  key. A value that \<open>float\<close> rejects leaves the dictionary as it is.
\<close>

fun collect_fields ::
  "(string \<times> string) list \<Rightarrow> (string \<Rightarrow> pyfloat option) \<Rightarrow> element list
   \<Rightarrow> (string \<times> pyfloat) list \<Rightarrow> (string \<times> pyfloat) list" where
  "collect_fields tbl fl [] flds = flds"
| "collect_fields tbl fl ((n, v) # es) flds =
     (case n of
        None \<Rightarrow> collect_fields tbl fl es flds
      | Some nm \<Rightarrow>
          (case map_of tbl nm of
             None \<Rightarrow> collect_fields tbl fl es flds
           | Some key \<Rightarrow>
               (case v of
                  None \<Rightarrow> collect_fields tbl fl es flds
                | Some s \<Rightarrow>
                    (case fl s of
                       None \<Rightarrow> collect_fields tbl fl es flds
                     | Some x \<Rightarrow> collect_fields tbl fl es (dict_set key x flds)))))"

text \<open>
  The result is \<open>Inl ValueError\<close> when the timestamp text does not parse (the exception
  leaves the function), \<open>Inr None\<close> for the three \<open>return None\<close>, and otherwise the station
  id, the epoch seconds and the metric dictionary. The source also stores the epoch
  seconds in the dictionary under \<open>observation_time\<close>; here they are the second component.
\<close>

definition parse_with ::
  "(string \<times> string) list \<Rightarrow> env \<Rightarrow> document
   \<Rightarrow> py_error + (string \<times> int \<times> (string \<times> pyfloat) list) option" where
  "parse_with tbl env doc =
     (case timePosition doc of
        None \<Rightarrow> Inr None
      | Some None \<Rightarrow> Inr None
      | Some (Some txt) \<Rightarrow>
          if txt = [] then Inr None
          else (case fromisoformat env (replace_Z txt) of
                  None \<Rightarrow> Inl ValueError
                | Some ts \<Rightarrow>
                    (case find_station (elements doc) None of
                       None \<Rightarrow> Inr None
                     | Some b \<Rightarrow>
                         if b = [] then Inr None
                         else (let flds = collect_fields tbl (py_float env) (elements doc) []
                               in if flds = [] then Inr None
                                  else Inr (Some (b, ts, flds))))))"

definition parse_and_collect_fields ::
  "env \<Rightarrow> document \<Rightarrow> py_error + (string \<times> int \<times> (string \<times> pyfloat) list) option" where
  "parse_and_collect_fields = parse_with FIELD_MAP"

subsection \<open>The observation table\<close>

text \<open>
  A row of \<open>buoy_observation\<close>: the two key columns, the metric columns that are not NULL,
  and the source file. The table is the list of its rows in insertion order.
\<close>

record row =
  buoy_id :: string
  observation_time :: int
  cols :: "(string \<times> pyfloat) list"
  source_file :: string

definition col :: "row \<Rightarrow> string \<Rightarrow> pyfloat option" where
  "col r c = map_of (cols r) c"

text \<open>SQLite stores a NaN parameter as NULL.\<close>

definition sql_bind :: "pyfloat \<Rightarrow> pyfloat option" where
  "sql_bind v = (if v = NaN then None else Some v)"

text \<open>
  \<open>INSERT OR IGNORE\<close> under the unique index \<open>uniq_buoy_ts\<close> on
  \<open>(buoy_id, observation_time)\<close>: a row whose key is present is dropped without an error.
\<close>

definition insert_sqlite ::
  "row list \<Rightarrow> string \<Rightarrow> int \<Rightarrow> (string \<times> pyfloat) list \<Rightarrow> string \<Rightarrow> row list" where
  "insert_sqlite cur b ts_epoch field_vals src =
     (let field_cols = [c \<leftarrow> EXPECTED_FIELDS. map_of field_vals c \<noteq> None];
          vals = List.map_filter
                   (\<lambda>c. Option.bind (map_of field_vals c) (\<lambda>v. map_option (Pair c) (sql_bind v)))
                   field_cols
      in if \<exists>r \<in> set cur. buoy_id r = b \<and> observation_time r = ts_epoch then cur
         else cur @ [\<lparr>buoy_id = b, observation_time = ts_epoch, cols = vals, source_file = src\<rparr>])"

subsection \<open>\<open>main\<close>\<close>

record ingest_state =
  store :: "row list"
  processed :: "string set"
  new_count :: nat
  skipped_count :: nat
  influx_online :: bool
  influx_points :: "(string \<times> int \<times> (string \<times> pyfloat) list) list"

text \<open>\<open>InfluxSink.write_point\<close>: a failed write disables the sink for the rest of the run.\<close>

definition write_point ::
  "env \<Rightarrow> string \<Rightarrow> string \<times> int \<times> (string \<times> pyfloat) list \<Rightarrow> ingest_state \<Rightarrow> ingest_state" where
  "write_point env fp point st =
     (if \<not> influx_online st then st
      else if influx_accepts env fp then st\<lparr>influx_points := influx_points st @ [point]\<rparr>
      else st\<lparr>influx_online := False\<rparr>)"

text \<open>
  One iteration of the loop over the files. An exception raised inside the \<open>try\<close> block
  (by \<open>ET.parse\<close> or by the timestamp parser) is caught by \<open>except Exception\<close>, which
  only prints.
\<close>

definition process_file :: "env \<Rightarrow> string \<Rightarrow> ingest_state \<Rightarrow> ingest_state" where
  "process_file env fp st =
     (if fp \<in> processed st then st
      else (case read_xml env fp of
              None \<Rightarrow> st
            | Some doc \<Rightarrow>
                (case parse_and_collect_fields env doc of
                   Inl e \<Rightarrow> st
                 | Inr None \<Rightarrow>
                     st\<lparr>processed := insert fp (processed st),
                        skipped_count := skipped_count st + 1\<rparr>
                 | Inr (Some (b, ts, flds)) \<Rightarrow>
                     (let st1 = write_point env fp (b, ts, flds) st
                      in st1\<lparr>store := insert_sqlite (store st1) b ts flds (path_name fp),
                             new_count := new_count st1 + 1,
                             processed := insert fp (processed st1)\<rparr>))))"

primrec main_loop :: "env \<Rightarrow> string list \<Rightarrow> ingest_state \<Rightarrow> ingest_state" where
  "main_loop env [] st = st"
| "main_loop env (fp # fps) st = main_loop env fps (process_file env fp st)"

text \<open>
  The files the run reads and writes: the table and the ledger file (\<open>None\<close> when it does
  not exist). \<open>main\<close> reads the ledger, runs the loop over the sorted directory listing
  (\<open>xml_files\<close>, in the order of \<open>sorted\<close>), and rewrites the ledger. Before the loop,
  \<open>ensure_schema\<close> creates the table, its two indexes and any missing metric column; it
  changes no row, and the unique index it creates is what \<open>insert_sqlite\<close> relies on.
  SQLite itself is taken to answer every statement.
\<close>

record world =
  database :: "row list"
  ledger_file :: "string option"

definition read_ledger :: "string option \<Rightarrow> string set" where
  "read_ledger f = (case f of None \<Rightarrow> {} | Some txt \<Rightarrow> set (splitlines txt))"

definition ledger_text :: "string set \<Rightarrow> string" where
  "ledger_text ps = join_nl (sorted_list_of_set ps)"

definition main_state :: "env \<Rightarrow> bool \<Rightarrow> string list \<Rightarrow> world \<Rightarrow> ingest_state" where
  "main_state env influx_up xml_files w =
     main_loop env xml_files
       \<lparr>store = database w, processed = read_ledger (ledger_file w), new_count = 0,
        skipped_count = 0, influx_online = influx_up, influx_points = []\<rparr>"

definition main :: "env \<Rightarrow> bool \<Rightarrow> string list \<Rightarrow> world \<Rightarrow> world" where
  "main env influx_up xml_files w =
     (let st = main_state env influx_up xml_files w
      in \<lparr>database = store st, ledger_file = Some (ledger_text (processed st))\<rparr>)"

subsection \<open>The uniqueness invariant\<close>


subsection \<open>The ledger file\<close>



subsection \<open>Reading the field loop\<close>

text \<open>What one element contributes to the dictionary: its canonical key and parsed value.\<close>

definition elem_field ::
  "(string \<times> string) list \<Rightarrow> (string \<Rightarrow> pyfloat option) \<Rightarrow> element \<Rightarrow> (string \<times> pyfloat) option" where
  "elem_field tbl fl e =
     (case fst e of
        None \<Rightarrow> None
      | Some nm \<Rightarrow>
          (case map_of tbl nm of
             None \<Rightarrow> None
           | Some key \<Rightarrow> (case snd e of None \<Rightarrow> None | Some s \<Rightarrow> map_option (Pair key) (fl s))))"

text \<open>
  The value of the last element, in document order, whose raw name maps to the key: the
  reading of "the later one wins" that ignores whether the value parses.
\<close>

definition last_mapped_value ::
  "(string \<times> string) list \<Rightarrow> (string \<Rightarrow> pyfloat option) \<Rightarrow> string \<Rightarrow> element list \<Rightarrow> pyfloat option" where
  "last_mapped_value tbl fl key es =
     (case [e \<leftarrow> es. Option.bind (fst e) (map_of tbl) = Some key] of
        [] \<Rightarrow> None
      | e # es' \<Rightarrow> Option.bind (snd (last (e # es'))) fl)"

subsection \<open>An interrupted ledger write\<close>


section \<open>Snapshot exporter (\<open>sqlite_to_json.py\<close>)\<close>

text \<open>
  The database as the exporters read it: the column names that \<open>PRAGMA table_info\<close>
  reports (none when the table does not exist) and the rows.
\<close>

record db =
  columns :: "string list"
  rows :: "row list"

text \<open>The stations: identifier, name and location, in the order of the dictionary.\<close>

definition BUOYS :: "(string \<times> string \<times> string) list" where
  "BUOYS =
     [(''4600146'', ''Halibut Bank'', ''Off Vancouver''),
      (''4600303'', ''Southern Georgia Strait'', ''Southern Strait''),
      (''4600304'', ''English Bay'', ''Vancouver Harbor''),
      (''4600131'', ''Sentry Shoal'', ''Northern Strait of Georgia'')]"

definition REALTIME_FIELDS :: "string list" where
  "REALTIME_FIELDS =
     [''wind_speed'', ''wind_gust'', ''wind_direction'', ''air_temp'', ''sea_temp'', ''pressure'']"

definition WAVE_FIELDS :: "string list" where
  "WAVE_FIELDS =
     [''wave_height_sig'', ''wave_height_peak'', ''wave_period_sig'', ''wave_period_avg'',
      ''wave_period_peak'', ''wave_direction_avg'', ''wave_direction_peak'']"

text \<open>
  A value of the output document. \<open>JTime t\<close> stands for the ISO-8601 rendering of the
  epoch second \<open>t\<close> in UTC.
\<close>

datatype jval = JStr string | JNum pyfloat | JTime int | JNull

text \<open>
  \<open>kmh_to_knots\<close>. The product is taken in the reals; Python's \<open>round(x, ndigits)\<close> on
  floats is a parameter.
\<close>

fun float_scale :: "real \<Rightarrow> pyfloat \<Rightarrow> pyfloat" where
  "float_scale c (Fin x) = Fin (x * c)"
| "float_scale c v = v"

definition kmh_to_knots :: "(nat \<Rightarrow> pyfloat \<Rightarrow> pyfloat) \<Rightarrow> pyfloat option \<Rightarrow> pyfloat option" where
  "kmh_to_knots py_round kmh =
     (case kmh of None \<Rightarrow> None | Some v \<Rightarrow> Some (py_round 1 (float_scale 0.539957 v)))"

text \<open>
  \<open>ORDER BY observation_time DESC LIMIT 1\<close> over the selected rows: a row with the
  greatest time (the first such row of the table; under the unique index a station has
  only one).
\<close>

fun sql_latest :: "row list \<Rightarrow> row option" where
  "sql_latest [] = None"
| "sql_latest (r # rs) =
     (case sql_latest rs of
        None \<Rightarrow> Some r
      | Some b \<Rightarrow> if observation_time b \<le> observation_time r then Some r else Some b)"

text \<open>The rows the second query of a station selects.\<close>

definition wave_candidates :: "db \<Rightarrow> string \<Rightarrow> int \<Rightarrow> row list" where
  "wave_candidates d bid obs_time =
     [r \<leftarrow> rows d. buoy_id r = bid \<and> obs_time - 3600 \<le> observation_time r
                    \<and> observation_time r \<le> obs_time \<and> col r ''wave_height_sig'' \<noteq> None]"

text \<open>The two loops that copy the columns of a row that are not NULL.\<close>

definition add_realtime ::
  "(nat \<Rightarrow> pyfloat \<Rightarrow> pyfloat) \<Rightarrow> row \<Rightarrow> string \<Rightarrow> (string \<times> jval) list \<Rightarrow> (string \<times> jval) list" where
  "add_realtime py_round realtime_row field buoy_json =
     (case col realtime_row field of
        None \<Rightarrow> buoy_json
      | Some v \<Rightarrow>
          if field = ''wind_speed'' \<or> field = ''wind_gust''
          then dict_set field
                 (case kmh_to_knots py_round (Some v) of None \<Rightarrow> JNull | Some k \<Rightarrow> JNum k) buoy_json
          else dict_set field (JNum v) buoy_json)"

definition add_wave :: "row \<Rightarrow> string \<Rightarrow> (string \<times> jval) list \<Rightarrow> (string \<times> jval) list" where
  "add_wave wave_row field buoy_json =
     (case col wave_row field of
        None \<Rightarrow> buoy_json
      | Some v \<Rightarrow> dict_set field (JNum v) buoy_json)"

text \<open>
  The derived label of a direction field: nothing is added when the field is absent or
  the label is \<open>None\<close>; the \<open>ValueError\<close> of \<open>degrees_to_cardinal\<close> is not caught.
\<close>

definition add_cardinal ::
  "string \<Rightarrow> string \<Rightarrow> (string \<times> jval) list \<Rightarrow> py_error + (string \<times> jval) list" where
  "add_cardinal field label buoy_json =
     (case map_of buoy_json field of
        Some (JNum v) \<Rightarrow>
          (case degrees_to_cardinal (Some v) of
             Inl e \<Rightarrow> Inl e
           | Inr None \<Rightarrow> Inr buoy_json
           | Inr (Some c) \<Rightarrow> if c = [] then Inr buoy_json else Inr (dict_set label (JStr c) buoy_json))
      | _ \<Rightarrow> Inr buoy_json)"

text \<open>
  The three blocks of the loop body: the realtime fields of the newest row, the wave
  fields of the newest row of the second query, and the two derived labels.
\<close>

definition realtime_json ::
  "(nat \<Rightarrow> pyfloat \<Rightarrow> pyfloat) \<Rightarrow> db \<Rightarrow> string \<Rightarrow> row \<Rightarrow> (string \<times> jval) list" where
  "realtime_json py_round d name realtime_row =
     fold (add_realtime py_round realtime_row) [f \<leftarrow> REALTIME_FIELDS. f \<in> set (columns d)]
       (dict_set ''observation_time'' (JTime (observation_time realtime_row))
          [(''name'', JStr name)])"

definition wave_json :: "db \<Rightarrow> string \<Rightarrow> int \<Rightarrow> (string \<times> jval) list \<Rightarrow> (string \<times> jval) list" where
  "wave_json d bid obs_time buoy_json =
     (case sql_latest (wave_candidates d bid obs_time) of
        None \<Rightarrow> buoy_json
      | Some wave_row \<Rightarrow>
          fold (add_wave wave_row) [f \<leftarrow> WAVE_FIELDS. f \<in> set (columns d)]
            (if observation_time wave_row \<noteq> obs_time
             then dict_set ''wave_observation_time'' (JTime (observation_time wave_row)) buoy_json
             else buoy_json))"

definition cardinal_json :: "(string \<times> jval) list \<Rightarrow> py_error + (string \<times> jval) list" where
  "cardinal_json buoy_json =
     (case add_cardinal ''wind_direction'' ''wind_direction_cardinal'' buoy_json of
        Inl e \<Rightarrow> Inl e
      | Inr j \<Rightarrow> add_cardinal ''wave_direction_peak'' ''wave_direction_peak_cardinal'' j)"

text \<open>
  The body of the loop over the stations: \<open>Inr None\<close> when the station has no row
  (\<open>continue\<close>), \<open>Inl\<close> when an exception leaves the loop. The second query names the
  column \<open>wave_height_sig\<close>; SQLite raises \<open>OperationalError\<close> when the table lacks it.
\<close>

definition export_buoy ::
  "(nat \<Rightarrow> pyfloat \<Rightarrow> pyfloat) \<Rightarrow> db \<Rightarrow> string \<times> string \<times> string
   \<Rightarrow> py_error + (string \<times> jval) list option" where
  "export_buoy py_round d b =
     (case b of (bid, name, location) \<Rightarrow>
        (case sql_latest [r \<leftarrow> rows d. buoy_id r = bid] of
           None \<Rightarrow> Inr None
         | Some realtime_row \<Rightarrow>
             if ''wave_height_sig'' \<notin> set (columns d) then Inl OperationalError
             else (case cardinal_json
                          (wave_json d bid (observation_time realtime_row)
                             (realtime_json py_round d name realtime_row)) of
                     Inl e \<Rightarrow> Inl e
                   | Inr buoy_json \<Rightarrow> Inr (Some buoy_json))))"

fun export_buoys ::
  "(nat \<Rightarrow> pyfloat \<Rightarrow> pyfloat) \<Rightarrow> db \<Rightarrow> (string \<times> string \<times> string) list
   \<Rightarrow> (string \<times> (string \<times> jval) list) list
   \<Rightarrow> py_error + (string \<times> (string \<times> jval) list) list" where
  "export_buoys py_round d [] latest_json = Inr latest_json"
| "export_buoys py_round d (b # bs) latest_json =
     (case export_buoy py_round d b of
        Inl e \<Rightarrow> Inl e
      | Inr None \<Rightarrow> export_buoys py_round d bs latest_json
      | Inr (Some buoy_json) \<Rightarrow>
          export_buoys py_round d bs (dict_set (fst b) buoy_json latest_json))"

text \<open>
  \<open>query_and_export\<close>: \<open>Inr None\<close> when it returns before writing, \<open>Inr (Some j)\<close> when
  \<open>j\<close> is written to the output path, \<open>Inl\<close> when an exception ends the script.
\<close>

definition query_and_export ::
  "(nat \<Rightarrow> pyfloat \<Rightarrow> pyfloat) \<Rightarrow> db \<Rightarrow> py_error + (string \<times> (string \<times> jval) list) list option" where
  "query_and_export py_round d =
     (if \<not> ({''buoy_id'', ''observation_time''} \<subseteq> set (columns d)) then Inr None
      else (case export_buoys py_round d BUOYS [] of
              Inl e \<Rightarrow> Inl e
            | Inr latest_json \<Rightarrow> Inr (Some latest_json)))"

text \<open>The columns of the table that \<open>CREATE_TABLE_SQL\<close> creates.\<close>

definition TABLE_COLUMNS :: "string list" where
  "TABLE_COLUMNS = [''id'', ''buoy_id'', ''observation_time''] @ EXPECTED_FIELDS
                   @ [''source_file'', ''recorded_at'']"

section \<open>Timeseries exporter (\<open>export_24hr_timeseries.py\<close>)\<close>

text \<open>The metrics of the export: key, display name and unit, in the order of the dictionary.\<close>

definition ALL_METRICS :: "(string \<times> string \<times> string) list" where
  "ALL_METRICS =
     [(''wave_height_sig'', ''Significant Wave Height'', ''m''),
      (''wave_height_peak'', ''Peak Wave Height'', ''m''),
      (''wave_period_avg'', ''Average Wave Period'', ''s''),
      (''wave_period_peak'', ''Peak Wave Period'', ''s''),
      (''wave_direction_peak'', ''Peak Wave Direction'', [CHR 0xB0]),
      (''wind_speed'', ''Wind Speed'', ''kt''),
      (''wind_gust'', ''Wind Gust'', ''kt''),
      (''wind_direction'', ''Wind Direction'', [CHR 0xB0]),
      (''air_temp'', ''Air Temperature'', [CHR 0xB0, CHR ''C'']),
      (''sea_temp'', ''Sea Temperature'', [CHR 0xB0, CHR ''C'']),
      (''pressure'', ''Pressure'', ''hPa'')]"

text \<open>\<open>int(x)\<close> on a float truncates towards zero.\<close>

definition py_int :: "real \<Rightarrow> int" where
  "py_int x = (if 0 \<le> x then \<lfloor>x\<rfloor> else \<lceil>x\<rceil>)"

text \<open>
  The start of the query window: \<open>now\<close> is the export time in epoch seconds (with its
  fraction), 24 hours are subtracted and the result is truncated.
\<close>

definition cutoff_timestamp :: "real \<Rightarrow> int" where
  "cutoff_timestamp now = py_int (now - 24 * 3600)"

text \<open>SQLite's \<open>%\<close> on integers: the remainder of truncated division.\<close>

definition sqlite_rem :: "int \<Rightarrow> int \<Rightarrow> int" where
  "sqlite_rem a b = sgn a * (\<bar>a\<bar> mod \<bar>b\<bar>)"

text \<open>
  The query of one station and metric: the hourly variant for the two stations that
  report every ten minutes, the plain variant for the others; both order by time.
\<close>

definition metric_rows :: "db \<Rightarrow> string \<Rightarrow> string \<Rightarrow> int \<Rightarrow> row list" where
  "metric_rows d bid metric_key cutoff =
     (if bid \<in> set [''4600304'', ''4600303'']
      then sort_key observation_time
             [r \<leftarrow> rows d. buoy_id r = bid \<and> cutoff \<le> observation_time r
                           \<and> col r metric_key \<noteq> None
                           \<and> sqlite_rem (observation_time r) 3600 = 0]
      else sort_key observation_time
             [r \<leftarrow> rows d. buoy_id r = bid \<and> cutoff \<le> observation_time r
                           \<and> col r metric_key \<noteq> None])"

text \<open>One point of a series: the time (rendered as ISO-8601 in the output) and the value.\<close>

definition series_point ::
  "(nat \<Rightarrow> pyfloat \<Rightarrow> pyfloat) \<Rightarrow> string \<Rightarrow> row \<Rightarrow> int \<times> jval" where
  "series_point py_round metric_key r =
     (observation_time r,
      (if metric_key = ''wind_speed'' \<or> metric_key = ''wind_gust''
       then (case kmh_to_knots py_round (col r metric_key) of None \<Rightarrow> JNull | Some k \<Rightarrow> JNum k)
       else (case col r metric_key of None \<Rightarrow> JNull | Some v \<Rightarrow> JNum (py_round 2 v))))"

record metric_series =
  series_name :: string
  series_unit :: string
  series_data :: "(int \<times> jval) list"

record buoy_data =
  buoy_name :: string
  buoy_location :: string
  timeseries :: "(string \<times> metric_series) list"

text \<open>The loop over the metrics of one station: a metric without rows gets no entry.\<close>

definition add_metric ::
  "(nat \<Rightarrow> pyfloat \<Rightarrow> pyfloat) \<Rightarrow> db \<Rightarrow> string \<Rightarrow> int \<Rightarrow> string \<times> string \<times> string
   \<Rightarrow> (string \<times> metric_series) list \<Rightarrow> (string \<times> metric_series) list" where
  "add_metric py_round d bid cutoff metric ts =
     (case metric of (metric_key, name, unit) \<Rightarrow>
        (case metric_rows d bid metric_key cutoff of
           [] \<Rightarrow> ts
         | r # rs \<Rightarrow>
             dict_set metric_key
               \<lparr>series_name = name, series_unit = unit,
                series_data = map (series_point py_round metric_key) (r # rs)\<rparr> ts))"

definition station_timeseries ::
  "(nat \<Rightarrow> pyfloat \<Rightarrow> pyfloat) \<Rightarrow> db \<Rightarrow> int \<Rightarrow> (string \<times> string \<times> string) list
   \<Rightarrow> string \<Rightarrow> (string \<times> metric_series) list" where
  "station_timeseries py_round d cutoff available_metrics bid =
     fold (add_metric py_round d bid cutoff) available_metrics []"

text \<open>The loop over the stations: a station without any series is left out.\<close>

definition add_station ::
  "(nat \<Rightarrow> pyfloat \<Rightarrow> pyfloat) \<Rightarrow> db \<Rightarrow> int \<Rightarrow> (string \<times> string \<times> string) list
   \<Rightarrow> string \<times> string \<times> string \<Rightarrow> (string \<times> buoy_data) list \<Rightarrow> (string \<times> buoy_data) list" where
  "add_station py_round d cutoff available_metrics b timeseries_json =
     (case b of (bid, name, location) \<Rightarrow>
        (let ts = station_timeseries py_round d cutoff available_metrics bid
         in if ts = [] then timeseries_json
            else dict_set bid \<lparr>buoy_name = name, buoy_location = location, timeseries = ts\<rparr>
                   timeseries_json))"

text \<open>
  The document that is written: the stations and, of the metadata, the available metrics
  and the station count (the times of the metadata are not modelled).
\<close>

record timeseries_json =
  stations :: "(string \<times> buoy_data) list"
  available_metrics :: "string list"
  buoy_count :: nat

text \<open>
  \<open>query_and_export_timeseries\<close>: the document it writes, or \<open>None\<close> when it returns
  without writing (no database file, no metric column, or an \<open>OperationalError\<close>, which
  a table without the two key columns raises in the first query).
\<close>

definition query_and_export_timeseries ::
  "(nat \<Rightarrow> pyfloat \<Rightarrow> pyfloat) \<Rightarrow> real \<Rightarrow> db option \<Rightarrow> timeseries_json option" where
  "query_and_export_timeseries py_round now dbfile =
     (case dbfile of
        None \<Rightarrow> None
      | Some d \<Rightarrow>
          (let cutoff = cutoff_timestamp now;
               available = [m \<leftarrow> ALL_METRICS. fst m \<in> set (columns d)]
           in if available = [] then None
              else if \<not> ({''buoy_id'', ''observation_time''} \<subseteq> set (columns d)) then None
              else (let js = fold (add_station py_round d cutoff available) BUOYS []
                    in Some \<lparr>stations = js, available_metrics = map fst available,
                             buoy_count = length js\<rparr>)))"

subsection \<open>The lock file\<close>





subsection \<open>Reading a written document\<close>

text \<open>The series of a station and metric in a written document; empty when there is none.\<close>

definition series_of :: "timeseries_json \<Rightarrow> string \<Rightarrow> string \<Rightarrow> (int \<times> jval) list" where
  "series_of out bid metric_key =
     (case map_of (stations out) bid of
        None \<Rightarrow> []
      | Some bd \<Rightarrow> (case map_of (timeseries bd) metric_key of None \<Rightarrow> [] | Some ms \<Rightarrow> series_data ms))"

text \<open>
  The trailing window as the specification words it: the 24 hours that end at the export.
\<close>

definition in_window :: "real \<Rightarrow> int \<Rightarrow> bool" where
  "in_window now t = (now - 24 * 3600 \<le> real_of_int t \<and> real_of_int t \<le> now)"

section \<open>Example inputs\<close>

text \<open>
  A small directory used to exercise the theorems: \<open>a.xml\<close> and \<open>b.xml\<close> describe the same
  station and instant with different wind speeds, \<open>c.xml\<close> has no usable metric, the
  timestamp of \<open>d.xml\<close> does not parse, and any other file is not well-formed XML.
\<close>

definition ex_doc :: "string \<Rightarrow> string \<Rightarrow> document" where
  "ex_doc t v =
     \<lparr>timePosition = Some (Some t),
      elements = [(Some ''wmo_synop_id'', Some ''46146''),
                  (Some ''stn_nam'', Some ''Halibut Bank''),
                  (Some ''avg_wnd_spd_pst10mts'', Some v)]\<rparr>"

definition ex_env :: env where
  "ex_env =
     \<lparr>read_xml = (\<lambda>p. if p = ''/buoy/a.xml'' then Some (ex_doc ''2024-01-01T00:00:00Z'' ''1.5'')
                      else if p = ''/buoy/b.xml'' then Some (ex_doc ''2024-01-01T00:00:00Z'' ''2.5'')
                      else if p = ''/buoy/c.xml'' then Some (ex_doc ''2024-01-01T00:00:00Z'' ''MSNG'')
                      else if p = ''/buoy/d.xml'' then Some (ex_doc ''yesterday'' ''1.5'')
                      else None),
      fromisoformat = (\<lambda>s. if s = ''2024-01-01T00:00:00+00:00'' then Some 1704067200 else None),
      py_float = (\<lambda>s. if s = ''1.5'' then Some (Fin 1.5)
                      else if s = ''2.5'' then Some (Fin 2.5) else None),
      influx_accepts = (\<lambda>p. True)\<rparr>"

definition ex_world :: world where
  "ex_world = \<lparr>database = [], ledger_file = None\<rparr>"

text \<open>
  A document that reports the significant wave height under three raw names; the value of
  the last one is the marker \<open>MSNG\<close>, which \<open>float\<close> rejects.
\<close>

definition ex_wave_elements :: "element list" where
  "ex_wave_elements =
     [(Some ''wmo_id_extnd'', Some ''4600146''),
      (Some ''sig_wave_hgt_pst20mts'', Some ''1.5''),
      (Some ''avg_sig_wave_hgt_pst20mts'', Some ''2.5''),
      (Some ''sig_wave_hgt_pst35mts_10mts_ago'', Some ''MSNG'')]"

definition ex_wave_doc :: document where
  "ex_wave_doc = \<lparr>timePosition = Some (Some ''2024-01-01T00:00:00Z''), elements = ex_wave_elements\<rparr>"


text \<open>
  A table for the snapshot exporter: station 4600146 with wind at \<open>T = 1704067200\<close>, a row
  half an hour earlier that has a wave period and an air temperature but no wave height,
  and a row \<open>wave_age\<close> seconds before \<open>T\<close> that has a wave height. The two documents
  are the snapshots expected for an age of 59 and of 61 minutes; \<open>ex_round\<close> stands in for
  \<open>round\<close> and leaves its argument as it is.
\<close>

definition ex_snapshot_db :: "int \<Rightarrow> db" where
  "ex_snapshot_db wave_age =
     \<lparr>columns = TABLE_COLUMNS,
      rows = [\<lparr>buoy_id = ''4600146'', observation_time = 1704067200 - wave_age,
               cols = [(''wave_height_sig'', Fin 1.5), (''wave_period_peak'', Fin 8)],
               source_file = ''w.xml''\<rparr>,
              \<lparr>buoy_id = ''4600146'', observation_time = 1704067200 - 1800,
               cols = [(''wave_period_peak'', Fin 9), (''air_temp'', Fin 7)],
               source_file = ''p.xml''\<rparr>,
              \<lparr>buoy_id = ''4600146'', observation_time = 1704067200,
               cols = [(''wind_speed'', Fin 10), (''wind_direction'', Fin 100)],
               source_file = ''x.xml''\<rparr>]\<rparr>"


definition ex_json_59 :: "(string \<times> jval) list" where
  "ex_json_59 =
     [(''name'', JStr ''Halibut Bank''), (''observation_time'', JTime 1704067200),
      (''wind_speed'', JNum (Fin (10 * 0.539957))), (''wind_direction'', JNum (Fin 100)),
      (''wave_observation_time'', JTime (1704067200 - 59 * 60)),
      (''wave_height_sig'', JNum (Fin 1.5)), (''wave_period_peak'', JNum (Fin 8)),
      (''wind_direction_cardinal'', JStr ''E'')]"

definition ex_json_61 :: "(string \<times> jval) list" where
  "ex_json_61 =
     [(''name'', JStr ''Halibut Bank''), (''observation_time'', JTime 1704067200),
      (''wind_speed'', JNum (Fin (10 * 0.539957))), (''wind_direction'', JNum (Fin 100)),
      (''wind_direction_cardinal'', JStr ''E'')]"

definition ex_round :: "nat \<Rightarrow> pyfloat \<Rightarrow> pyfloat" where
  "ex_round ndigits x = x"

text \<open>
  A table for the timeseries exporter, exported at \<open>1704067200\<close> (a full hour): station
  4600304 with samples one hour after the export, one and two hours before it and ten
  minutes past an hour; station 4600146 with a sample ten minutes past an hour and one
  that is 25 hours old. \<open>ex_series_out\<close> is the document expected for it.
\<close>

definition ex_series_db :: db where
  "ex_series_db =
     \<lparr>columns = TABLE_COLUMNS,
      rows = [\<lparr>buoy_id = ''4600304'', observation_time = 1704067200 + 3600,
               cols = [(''air_temp'', Fin 5)], source_file = ''f.xml''\<rparr>,
              \<lparr>buoy_id = ''4600304'', observation_time = 1704067200 - 3600,
               cols = [(''air_temp'', Fin 6)], source_file = ''h1.xml''\<rparr>,
              \<lparr>buoy_id = ''4600304'', observation_time = 1704067200 - 7200 + 600,
               cols = [(''air_temp'', Fin 7)], source_file = ''m.xml''\<rparr>,
              \<lparr>buoy_id = ''4600304'', observation_time = 1704067200 - 7200,
               cols = [(''air_temp'', Fin 8)], source_file = ''h2.xml''\<rparr>,
              \<lparr>buoy_id = ''4600146'', observation_time = 1704067200 - 7200 + 600,
               cols = [(''air_temp'', Fin 9)], source_file = ''s.xml''\<rparr>,
              \<lparr>buoy_id = ''4600146'', observation_time = 1704067200 - 25 * 3600,
               cols = [(''air_temp'', Fin 10)], source_file = ''o.xml''\<rparr>]\<rparr>"


definition ex_series_out :: timeseries_json where
  "ex_series_out =
     \<lparr>stations =
        [(''4600146'',
          \<lparr>buoy_name = ''Halibut Bank'', buoy_location = ''Off Vancouver'',
           timeseries =
             [(''air_temp'',
               \<lparr>series_name = ''Air Temperature'', series_unit = [CHR 0xB0, CHR ''C''],
                series_data = [(1704060600, JNum (Fin 9))]\<rparr>)]\<rparr>),
         (''4600304'',
          \<lparr>buoy_name = ''English Bay'', buoy_location = ''Vancouver Harbor'',
           timeseries =
             [(''air_temp'',
               \<lparr>series_name = ''Air Temperature'', series_unit = [CHR 0xB0, CHR ''C''],
                series_data = [(1704060000, JNum (Fin 8)), (1704063600, JNum (Fin 6)),
                               (1704070800, JNum (Fin 5))]\<rparr>)]\<rparr>)],
      available_metrics = map fst ALL_METRICS,
      buoy_count = 2\<rparr>"

section \<open>Compass labels: results\<close>





section \<open>Ingestion: the uniqueness invariant\<close>





lemma write_point_store [simp]: "store (write_point env fp pt st) = store st"
  by (simp add: write_point_def)

lemma write_point_processed [simp]: "processed (write_point env fp pt st) = processed st"
  by (simp add: write_point_def)











lemmas ex_simps = ex_env_def ex_doc_def ex_world_def main_def main_state_def read_ledger_def
  process_file_def parse_and_collect_fields_def parse_with_def replace_Z_def FIELD_MAP_def
  write_point_def insert_sqlite_def EXPECTED_FIELDS_def List.map_filter_simps sql_bind_def
  path_name_def Let_def

lemma ex_parse_a:
  "parse_and_collect_fields ex_env (ex_doc ''2024-01-01T00:00:00Z'' ''1.5'')
   = Inr (Some (''46146'', 1704067200, [(''wind_speed'', Fin 1.5)]))"
  by (simp add: ex_simps)

lemma ex_run_db:
  "database (main ex_env False [''/buoy/a.xml'', ''/buoy/b.xml''] ex_world)
   = [\<lparr>buoy_id = ''46146'', observation_time = 1704067200,
        cols = [(''wind_speed'', Fin 1.5)], source_file = ''a.xml''\<rparr>]"
  by (simp add: ex_simps)




section \<open>Ingestion: the ledger and idempotence\<close>

lemma linebreak_LF [simp]: "linebreak (CHR 0x0A)"
  by (simp add: linebreak_def)

lemma linebreak_CR [simp]: "linebreak (CHR 0x0D)"
  by (simp add: linebreak_def)
































section \<open>Extraction: which element supplies a metric\<close>

lemma map_of_dict_set: "map_of (dict_set k v d) = (map_of d)(k \<mapsto> v)"
  by (induction d) (auto simp add: fun_eq_iff)

lemma collect_fields_step:
  "collect_fields tbl fl (e # es) flds =
     collect_fields tbl fl es
       (case elem_field tbl fl e of None \<Rightarrow> flds | Some (k, x) \<Rightarrow> dict_set k x flds)"
  by (cases e) (simp add: elem_field_def split: option.splits)

lemma collect_fields_last:
  "map_of (collect_fields tbl fl es flds) key =
     (case [p \<leftarrow> List.map_filter (elem_field tbl fl) es. fst p = key] of
        [] \<Rightarrow> map_of flds key
      | p # ps \<Rightarrow> Some (snd (last (p # ps))))"
proof (induction es arbitrary: flds)
  case Nil
  then show ?case by (simp add: List.map_filter_simps)
next
  case (Cons e es)
  let ?rest = "[p \<leftarrow> List.map_filter (elem_field tbl fl) es. fst p = key]"
  show ?case
  proof (cases "elem_field tbl fl e")
    case None
    then show ?thesis
      by (simp only: collect_fields_step Cons.IH List.map_filter_simps option.case)
  next
    case (Some kx)
    obtain k x where kx: "kx = (k, x)" by (cases kx)
    have step: "map_of (collect_fields tbl fl (e # es) flds) key =
        (case ?rest of [] \<Rightarrow> map_of (dict_set k x flds) key | p # ps \<Rightarrow> Some (snd (last (p # ps))))"
      by (simp only: collect_fields_step Some kx Cons.IH option.case prod.case)
    show ?thesis
    proof (cases "k = key")
      case True
      then show ?thesis
        using step Some kx
        by (cases ?rest) (simp_all add: List.map_filter_simps map_of_dict_set)
    next
      case False
      then show ?thesis
        using step Some kx
        by (cases ?rest) (simp_all add: List.map_filter_simps map_of_dict_set)
    qed
  qed
qed

lemma collect_fields_table:
  "map_of tbl = map_of tbl' \<Longrightarrow> collect_fields tbl fl es flds = collect_fields tbl' fl es flds"
proof (induction es arbitrary: flds)
  case Nil
  then show ?case by simp
next
  case (Cons e es)
  have "\<And>nm. map_of tbl nm = map_of tbl' nm"
    using Cons.prems by simp
  then have "elem_field tbl fl e = elem_field tbl' fl e"
    by (simp add: elem_field_def split: option.splits)
  then show ?case
    by (simp only: collect_fields_step Cons.IH [OF Cons.prems])
qed

lemma parse_with_table:
  "map_of tbl = map_of tbl' \<Longrightarrow> parse_with tbl env doc = parse_with tbl' env doc"
proof -
  assume "map_of tbl = map_of tbl'"
  then have "collect_fields tbl (py_float env) (elements doc) []
      = collect_fields tbl' (py_float env) (elements doc) []"
    by (rule collect_fields_table)
  then show ?thesis by (simp add: parse_with_def Let_def split: option.splits)
qed

lemma FIELD_MAP_distinct: "distinct (map fst FIELD_MAP)"
  by (simp add: FIELD_MAP_def)

lemma parse_with_Some:
  "parse_with tbl env doc = Inr (Some (b, ts, flds))
   \<Longrightarrow> flds = collect_fields tbl (py_float env) (elements doc) []"
  by (auto simp add: parse_with_def Let_def split: option.splits if_splits)

lemma ex_wave_parse:
  "parse_and_collect_fields ex_env ex_wave_doc
   = Inr (Some (''4600146'', 1704067200, [(''wave_height_sig'', Fin 2.5)]))"
  by (simp add: ex_simps ex_wave_doc_def ex_wave_elements_def)

text \<open>
  C8 (as the code has it). The value extracted under a canonical key is the value of the
  last element, in document order, whose raw name maps to the key and whose value
  attribute is present and parses as a float; the key is absent when there is no such
  element. The table is only looked up by raw name: listing its entries in another
  order gives the same result.
\<close>

theorem last_parsable_element_wins:
  "(parse_and_collect_fields env doc = Inr (Some (b, ts, flds))
      \<longrightarrow> map_of flds key =
          (case [p \<leftarrow> List.map_filter (elem_field FIELD_MAP (py_float env)) (elements doc).
                   fst p = key] of
             [] \<Rightarrow> None
           | p # ps \<Rightarrow> Some (snd (last (p # ps)))))
   \<and> (distinct (map fst tbl') \<and> set tbl' = set FIELD_MAP
      \<longrightarrow> parse_with tbl' env doc = parse_and_collect_fields env doc)"
proof (intro conjI impI)
  assume "parse_and_collect_fields env doc = Inr (Some (b, ts, flds))"
  then have "flds = collect_fields FIELD_MAP (py_float env) (elements doc) []"
    unfolding parse_and_collect_fields_def by (rule parse_with_Some)
  then show "map_of flds key =
          (case [p \<leftarrow> List.map_filter (elem_field FIELD_MAP (py_float env)) (elements doc).
                   fst p = key] of
             [] \<Rightarrow> None
           | p # ps \<Rightarrow> Some (snd (last (p # ps))))"
    by (simp add: collect_fields_last split: list.splits)
next
  assume a: "distinct (map fst tbl') \<and> set tbl' = set FIELD_MAP"
  have "map_of tbl' = map_of FIELD_MAP"
    using a FIELD_MAP_distinct by (simp add: map_of_inject_set)
  then show "parse_with tbl' env doc = parse_and_collect_fields env doc"
    unfolding parse_and_collect_fields_def by (rule parse_with_table)
qed

text \<open>
  The example document carries three raw names of the significant wave height, with the
  values 1.5, 2.5 and \<open>MSNG\<close>: 2.5 is extracted, also with the table reversed.
\<close>

theorem last_parsable_element_wins_witness:
  "parse_and_collect_fields ex_env ex_wave_doc
     = Inr (Some (''4600146'', 1704067200, [(''wave_height_sig'', Fin 2.5)]))
   \<and> [p \<leftarrow> List.map_filter (elem_field FIELD_MAP (py_float ex_env)) (elements ex_wave_doc).
         fst p = ''wave_height_sig'']
     = [(''wave_height_sig'', Fin 1.5), (''wave_height_sig'', Fin 2.5)]
   \<and> map_of [(''wave_height_sig'', Fin 2.5)] ''wave_height_sig'' = Some (Fin 2.5)
   \<and> distinct (map fst (rev FIELD_MAP)) \<and> set (rev FIELD_MAP) = set FIELD_MAP
   \<and> parse_with (rev FIELD_MAP) ex_env ex_wave_doc
     = Inr (Some (''4600146'', 1704067200, [(''wave_height_sig'', Fin 2.5)]))"
proof -
  have p: "parse_and_collect_fields ex_env ex_wave_doc
     = Inr (Some (''4600146'', 1704067200, [(''wave_height_sig'', Fin 2.5)]))"
    by (rule ex_wave_parse)
  have l: "[p \<leftarrow> List.map_filter (elem_field FIELD_MAP (py_float ex_env)) (elements ex_wave_doc).
         fst p = ''wave_height_sig'']
     = [(''wave_height_sig'', Fin 1.5), (''wave_height_sig'', Fin 2.5)]"
    by (simp add: ex_wave_doc_def ex_wave_elements_def elem_field_def FIELD_MAP_def ex_env_def
        List.map_filter_simps)
  have d: "distinct (map fst (rev FIELD_MAP))"
    using FIELD_MAP_distinct by (simp add: rev_map [symmetric])
  have s: "set (rev FIELD_MAP) = set FIELD_MAP" by simp
  note t = last_parsable_element_wins
    [of ex_env ex_wave_doc "''4600146''" 1704067200 "[(''wave_height_sig'', Fin 2.5)]"
        "''wave_height_sig''" "rev FIELD_MAP"]
  from t p have v: "map_of [(''wave_height_sig'', Fin 2.5)] ''wave_height_sig'' = Some (Fin 2.5)"
    by simp
  from t d s have "parse_with (rev FIELD_MAP) ex_env ex_wave_doc
      = parse_and_collect_fields ex_env ex_wave_doc"
    by blast
  with p l v d s show ?thesis by simp
qed

text \<open>
  C8 (as the specification states it) fails on the same document: the last element whose
  raw name maps to \<open>wave_height_sig\<close> carries \<open>MSNG\<close>, and the extracted value 2.5 is the
  value of the element before it.
\<close>

theorem last_element_not_always_taken:
  "map_of (collect_fields FIELD_MAP (py_float ex_env) (elements ex_wave_doc) []) ''wave_height_sig''
     = Some (Fin 2.5)
   \<and> last [e \<leftarrow> elements ex_wave_doc. Option.bind (fst e) (map_of FIELD_MAP) = Some ''wave_height_sig'']
     = (Some ''sig_wave_hgt_pst35mts_10mts_ago'', Some ''MSNG'')
   \<and> last_mapped_value FIELD_MAP (py_float ex_env) ''wave_height_sig'' (elements ex_wave_doc) = None
   \<and> map_of (collect_fields FIELD_MAP (py_float ex_env) (elements ex_wave_doc) []) ''wave_height_sig''
     \<noteq> last_mapped_value FIELD_MAP (py_float ex_env) ''wave_height_sig'' (elements ex_wave_doc)"
  by (simp add: ex_wave_doc_def ex_wave_elements_def FIELD_MAP_def ex_env_def
      last_mapped_value_def)

section \<open>Ingestion: which failed documents reach the ledger\<close>














section \<open>Ingestion: writing the ledger\<close>










section \<open>Snapshot exporter: wave fields\<close>

lemma sql_latest_None: "sql_latest rs = None \<longleftrightarrow> rs = []"
  by (cases rs) (auto split: option.splits)

lemma sql_latest_Some:
  "sql_latest rs = Some w \<Longrightarrow> w \<in> set rs \<and> (\<forall>r \<in> set rs. observation_time r \<le> observation_time w)"
proof (induction rs arbitrary: w)
  case Nil
  then show ?case by simp
next
  case (Cons r rs)
  show ?case
  proof (cases "sql_latest rs")
    case None
    then have "rs = []" by (simp add: sql_latest_None)
    then show ?thesis using Cons.prems by simp
  next
    case (Some b)
    have ih: "b \<in> set rs \<and> (\<forall>q \<in> set rs. observation_time q \<le> observation_time b)"
      using Cons.IH [OF Some] .
    show ?thesis
    proof (cases "observation_time b \<le> observation_time r")
      case True
      then have "w = r" using Cons.prems Some by simp
      then show ?thesis using ih True by auto
    next
      case False
      then have "w = b" using Cons.prems Some by simp
      then show ?thesis using ih False by auto
    qed
  qed
qed

lemma fold_add_wave:
  "map_of (fold (add_wave w) fs j) k =
     (if k \<in> set fs \<and> col w k \<noteq> None then map_option JNum (col w k) else map_of j k)"
proof (induction fs arbitrary: j)
  case Nil
  then show ?case by simp
next
  case (Cons f fs)
  have step: "map_of (add_wave w f j) k =
      (if k = f \<and> col w k \<noteq> None then map_option JNum (col w k) else map_of j k)"
    by (auto simp add: add_wave_def map_of_dict_set split: option.splits)
  show ?case
    by (simp only: fold_simps Cons.IH step) auto
qed

lemma fold_add_realtime_other:
  "k \<notin> set fs \<Longrightarrow> map_of (fold (add_realtime rnd r) fs j) k = map_of j k"
proof (induction fs arbitrary: j)
  case Nil
  then show ?case by simp
next
  case (Cons f fs)
  then have "k \<noteq> f" and "k \<notin> set fs" by simp_all
  have "map_of (add_realtime rnd r f j) k = map_of j k"
    using \<open>k \<noteq> f\<close> by (simp add: add_realtime_def map_of_dict_set split: option.splits)
  then show ?case using Cons.IH [OF \<open>k \<notin> set fs\<close>] by simp
qed

lemma add_cardinal_other:
  "add_cardinal f lab j = Inr j' \<Longrightarrow> k \<noteq> lab \<Longrightarrow> map_of j' k = map_of j k"
  by (auto simp add: add_cardinal_def map_of_dict_set
      split: option.splits jval.splits sum.splits if_splits)

lemma wave_field_names:
  assumes "k \<in> set WAVE_FIELDS"
  shows "k \<notin> set REALTIME_FIELDS" and "k \<noteq> ''name''" and "k \<noteq> ''observation_time''"
    and "k \<noteq> ''wave_observation_time''" and "k \<noteq> ''wind_direction_cardinal''"
    and "k \<noteq> ''wave_direction_peak_cardinal''"
  using assms by (auto simp add: WAVE_FIELDS_def REALTIME_FIELDS_def)

lemma realtime_json_wave:
  assumes "k \<in> set WAVE_FIELDS"
  shows "map_of (realtime_json rnd d name rt) k = None"
proof -
  have n: "k \<notin> set [f \<leftarrow> REALTIME_FIELDS. f \<in> set (columns d)]"
    using wave_field_names(1) [OF assms] by simp
  show ?thesis
    unfolding realtime_json_def fold_add_realtime_other [OF n]
    using wave_field_names(2,3) [OF assms] by (simp add: map_of_dict_set)
qed

lemma wave_json_field:
  assumes k: "k \<in> set WAVE_FIELDS" and e: "map_of j k = None"
  shows "map_of (wave_json d bid T j) k =
           (case sql_latest (wave_candidates d bid T) of
              None \<Rightarrow> None
            | Some w \<Rightarrow> if k \<in> set (columns d) then map_option JNum (col w k) else None)"
proof (cases "sql_latest (wave_candidates d bid T)")
  case None
  then show ?thesis using e by (simp add: wave_json_def)
next
  case (Some w)
  have "map_of (if observation_time w \<noteq> T
               then dict_set ''wave_observation_time'' (JTime (observation_time w)) j
               else j) k = None"
    using e wave_field_names(4) [OF k] by (simp add: map_of_dict_set)
  then show ?thesis
    using Some k by (cases "col w k") (simp_all add: wave_json_def fold_add_wave)
qed

lemma cardinal_json_field:
  assumes "cardinal_json j = Inr j'" and "k \<in> set WAVE_FIELDS"
  shows "map_of j' k = map_of j k"
proof -
  obtain j4 where a: "add_cardinal ''wind_direction'' ''wind_direction_cardinal'' j = Inr j4"
    and b: "add_cardinal ''wave_direction_peak'' ''wave_direction_peak_cardinal'' j4 = Inr j'"
    using assms(1) by (auto simp add: cardinal_json_def split: sum.splits)
  have "map_of j' k = map_of j4 k"
    using add_cardinal_other [OF b] wave_field_names(6) [OF assms(2)] by simp
  also have "\<dots> = map_of j k"
    using add_cardinal_other [OF a] wave_field_names(5) [OF assms(2)] by simp
  finally show ?thesis .
qed

lemma export_buoy_Some:
  assumes "export_buoy rnd d (bid, name, loc) = Inr (Some j)"
  shows "\<exists>rt. sql_latest [r \<leftarrow> rows d. buoy_id r = bid] = Some rt
        \<and> ''wave_height_sig'' \<in> set (columns d)
        \<and> cardinal_json (wave_json d bid (observation_time rt) (realtime_json rnd d name rt)) = Inr j"
  using assms by (auto simp add: export_buoy_def split: option.splits if_splits sum.splits)

lemma export_buoy_wave:
  assumes ex: "export_buoy rnd d (bid, name, loc) = Inr (Some j)"
    and k: "k \<in> set WAVE_FIELDS"
  shows "\<exists>rt. sql_latest [r \<leftarrow> rows d. buoy_id r = bid] = Some rt
        \<and> ''wave_height_sig'' \<in> set (columns d)
        \<and> map_of j k =
            (case sql_latest (wave_candidates d bid (observation_time rt)) of
               None \<Rightarrow> None
             | Some w \<Rightarrow> if k \<in> set (columns d) then map_option JNum (col w k) else None)"
proof -
  obtain rt where rt: "sql_latest [r \<leftarrow> rows d. buoy_id r = bid] = Some rt"
    and cw: "''wave_height_sig'' \<in> set (columns d)"
    and cj: "cardinal_json (wave_json d bid (observation_time rt) (realtime_json rnd d name rt)) = Inr j"
    using export_buoy_Some [OF ex] by blast
  have "map_of j k = map_of (wave_json d bid (observation_time rt) (realtime_json rnd d name rt)) k"
    using cardinal_json_field [OF cj k] .
  also have "\<dots> = (case sql_latest (wave_candidates d bid (observation_time rt)) of
               None \<Rightarrow> None
             | Some w \<Rightarrow> if k \<in> set (columns d) then map_option JNum (col w k) else None)"
    by (rule wave_json_field [OF k realtime_json_wave [OF k]])
  finally show ?thesis using rt cw by blast
qed

lemma export_buoys_entry:
  "export_buoys rnd d bs acc = Inr out \<Longrightarrow> map_of out bid = Some j
   \<Longrightarrow> map_of acc bid = Some j \<or> (\<exists>b \<in> set bs. fst b = bid \<and> export_buoy rnd d b = Inr (Some j))"
proof (induction bs arbitrary: acc)
  case Nil
  then show ?case by simp
next
  case (Cons b bs)
  show ?case
  proof (cases "export_buoy rnd d b")
    case (Inl e)
    then show ?thesis using Cons.prems by simp
  next
    case (Inr r)
    show ?thesis
    proof (cases r)
      case None
      then have "export_buoys rnd d bs acc = Inr out" using Cons.prems Inr by simp
      from Cons.IH [OF this Cons.prems(2)] show ?thesis by auto
    next
      case (Some bj)
      then have "export_buoys rnd d bs (dict_set (fst b) bj acc) = Inr out"
        using Cons.prems Inr by simp
      from Cons.IH [OF this Cons.prems(2)]
      have "map_of (dict_set (fst b) bj acc) bid = Some j
          \<or> (\<exists>b \<in> set bs. fst b = bid \<and> export_buoy rnd d b = Inr (Some j))" .
      then show ?thesis
        using Inr Some by (auto simp add: map_of_dict_set split: if_splits)
    qed
  qed
qed

lemma query_and_export_entry:
  assumes "query_and_export rnd d = Inr (Some out)" and "map_of out bid = Some j"
  shows "\<exists>name loc. (bid, name, loc) \<in> set BUOYS \<and> export_buoy rnd d (bid, name, loc) = Inr (Some j)"
proof -
  have "export_buoys rnd d BUOYS [] = Inr out"
    using assms(1) by (auto simp add: query_and_export_def split: if_splits sum.splits)
  from export_buoys_entry [OF this assms(2)]
  obtain b where b: "b \<in> set BUOYS" "fst b = bid" "export_buoy rnd d b = Inr (Some j)"
    by auto
  obtain i name loc where t: "b = (i, name, loc)" by (cases b)
  with b have "(bid, name, loc) \<in> set BUOYS" and "export_buoy rnd d (bid, name, loc) = Inr (Some j)"
    by simp_all
  then show ?thesis by blast
qed

lemma snapshot_wave_fields:
  assumes qe: "query_and_export rnd d = Inr (Some out)" and en: "map_of out bid = Some j"
  shows "\<exists>rt. rt \<in> set (rows d) \<and> buoy_id rt = bid
        \<and> (\<forall>r \<in> set (rows d). buoy_id r = bid \<longrightarrow> observation_time r \<le> observation_time rt)
        \<and> (\<forall>k \<in> set WAVE_FIELDS. map_of j k =
              (case sql_latest (wave_candidates d bid (observation_time rt)) of
                 None \<Rightarrow> None
               | Some w \<Rightarrow> if k \<in> set (columns d) then map_option JNum (col w k) else None))"
proof -
  obtain name loc where ex: "export_buoy rnd d (bid, name, loc) = Inr (Some j)"
    using query_and_export_entry [OF qe en] by blast
  obtain rt where rt: "sql_latest [r \<leftarrow> rows d. buoy_id r = bid] = Some rt"
    using export_buoy_Some [OF ex] by blast
  have a: "rt \<in> set (rows d) \<and> buoy_id rt = bid"
    and b: "\<forall>r \<in> set (rows d). buoy_id r = bid \<longrightarrow> observation_time r \<le> observation_time rt"
    using sql_latest_Some [OF rt] by auto
  have "\<forall>k \<in> set WAVE_FIELDS. map_of j k =
              (case sql_latest (wave_candidates d bid (observation_time rt)) of
                 None \<Rightarrow> None
               | Some w \<Rightarrow> if k \<in> set (columns d) then map_option JNum (col w k) else None)"
  proof
    fix k assume "k \<in> set WAVE_FIELDS"
    from export_buoy_wave [OF ex this] rt
    show "map_of j k =
              (case sql_latest (wave_candidates d bid (observation_time rt)) of
                 None \<Rightarrow> None
               | Some w \<Rightarrow> if k \<in> set (columns d) then map_option JNum (col w k) else None)"
      by auto
  qed
  with a b show ?thesis by blast
qed

lemma wave_candidates_set:
  "r \<in> set (wave_candidates d bid T) \<longleftrightarrow>
     r \<in> set (rows d) \<and> buoy_id r = bid \<and> T - 3600 \<le> observation_time r
     \<and> observation_time r \<le> T \<and> col r ''wave_height_sig'' \<noteq> None"
  by (auto simp add: wave_candidates_def)

lemmas snap_simps = query_and_export_def export_buoy_def BUOYS_def TABLE_COLUMNS_def
  EXPECTED_FIELDS_def REALTIME_FIELDS_def WAVE_FIELDS_def ex_snapshot_db_def wave_candidates_def
  col_def add_realtime_def add_wave_def add_cardinal_def kmh_to_knots_def realtime_json_def
  wave_json_def cardinal_json_def ex_round_def float_mod_def DIRS_16_def

lemma ex_snapshot_59:
  "query_and_export ex_round (ex_snapshot_db (59 * 60)) = Inr (Some [(''4600146'', ex_json_59)])"
  by (simp add: snap_simps ex_json_59_def)

lemma ex_snapshot_61:
  "query_and_export ex_round (ex_snapshot_db (61 * 60)) = Inr (Some [(''4600146'', ex_json_61)])"
  by (simp add: snap_simps ex_json_61_def)



text \<open>
  C10. No wave field of the snapshot is null. When a station has any wave field, some row
  of the station inside the hour before its most recent time \<open>T\<close> has a wave height, and
  every wave field of the station is the column of that one row: a column of that row that
  is NULL is absent from the output. In particular, when every row of the station inside
  that hour lacks a wave height, the station has no wave field, whatever other wave
  columns those rows carry.
\<close>

theorem snapshot_wave_needs_height:
  assumes qe: "query_and_export rnd d = Inr (Some out)" and en: "map_of out bid = Some j"
  shows "(\<forall>k \<in> set WAVE_FIELDS. map_of j k \<noteq> Some JNull)
    \<and> ((\<exists>k \<in> set WAVE_FIELDS. map_of j k \<noteq> None) \<longrightarrow>
          (\<exists>T w. (\<forall>r \<in> set (rows d). buoy_id r = bid \<longrightarrow> observation_time r \<le> T)
               \<and> (\<exists>r \<in> set (rows d). buoy_id r = bid \<and> observation_time r = T)
               \<and> w \<in> set (rows d) \<and> buoy_id w = bid
               \<and> T - 3600 \<le> observation_time w \<and> observation_time w \<le> T
               \<and> col w ''wave_height_sig'' \<noteq> None
               \<and> (\<forall>k \<in> set WAVE_FIELDS. map_of j k =
                     (if k \<in> set (columns d) then map_option JNum (col w k) else None))))
    \<and> ((\<exists>T. (\<forall>r \<in> set (rows d). buoy_id r = bid \<longrightarrow> observation_time r \<le> T)
             \<and> (\<exists>r \<in> set (rows d). buoy_id r = bid \<and> observation_time r = T)
             \<and> (\<forall>r \<in> set (rows d). buoy_id r = bid \<and> T - 3600 \<le> observation_time r
                    \<longrightarrow> col r ''wave_height_sig'' = None))
         \<longrightarrow> (\<forall>k \<in> set WAVE_FIELDS. map_of j k = None))"
proof -
  obtain rt where rt: "rt \<in> set (rows d)" "buoy_id rt = bid"
    and mx: "\<forall>r \<in> set (rows d). buoy_id r = bid \<longrightarrow> observation_time r \<le> observation_time rt"
    and wf: "\<forall>k \<in> set WAVE_FIELDS. map_of j k =
              (case sql_latest (wave_candidates d bid (observation_time rt)) of
                 None \<Rightarrow> None
               | Some w \<Rightarrow> if k \<in> set (columns d) then map_option JNum (col w k) else None)"
    using snapshot_wave_fields [OF qe en] by blast
  let ?T = "observation_time rt"
  have a: "\<forall>k \<in> set WAVE_FIELDS. map_of j k \<noteq> Some JNull"
  proof
    fix k assume "k \<in> set WAVE_FIELDS"
    with wf have "map_of j k =
              (case sql_latest (wave_candidates d bid ?T) of
                 None \<Rightarrow> None
               | Some w \<Rightarrow> if k \<in> set (columns d) then map_option JNum (col w k) else None)"
      by simp
    then show "map_of j k \<noteq> Some JNull"
      by (auto split: option.splits if_splits)
  qed
  have b: "(\<exists>k \<in> set WAVE_FIELDS. map_of j k \<noteq> None) \<longrightarrow>
          (\<exists>T w. (\<forall>r \<in> set (rows d). buoy_id r = bid \<longrightarrow> observation_time r \<le> T)
               \<and> (\<exists>r \<in> set (rows d). buoy_id r = bid \<and> observation_time r = T)
               \<and> w \<in> set (rows d) \<and> buoy_id w = bid
               \<and> T - 3600 \<le> observation_time w \<and> observation_time w \<le> T
               \<and> col w ''wave_height_sig'' \<noteq> None
               \<and> (\<forall>k \<in> set WAVE_FIELDS. map_of j k =
                     (if k \<in> set (columns d) then map_option JNum (col w k) else None)))"
  proof
    assume "\<exists>k \<in> set WAVE_FIELDS. map_of j k \<noteq> None"
    then obtain w where w: "sql_latest (wave_candidates d bid ?T) = Some w"
      using wf by (cases "sql_latest (wave_candidates d bid ?T)") auto
    have "w \<in> set (wave_candidates d bid ?T)" using sql_latest_Some [OF w] by simp
    then have w1: "w \<in> set (rows d) \<and> buoy_id w = bid \<and> ?T - 3600 \<le> observation_time w
        \<and> observation_time w \<le> ?T \<and> col w ''wave_height_sig'' \<noteq> None"
      by (simp add: wave_candidates_set)
    have w2: "\<forall>k \<in> set WAVE_FIELDS. map_of j k =
                     (if k \<in> set (columns d) then map_option JNum (col w k) else None)"
      using wf w by simp
    have r: "\<exists>r \<in> set (rows d). buoy_id r = bid \<and> observation_time r = ?T"
      using rt by blast
    from mx r w1 w2 show "\<exists>T w. (\<forall>r \<in> set (rows d). buoy_id r = bid \<longrightarrow> observation_time r \<le> T)
               \<and> (\<exists>r \<in> set (rows d). buoy_id r = bid \<and> observation_time r = T)
               \<and> w \<in> set (rows d) \<and> buoy_id w = bid
               \<and> T - 3600 \<le> observation_time w \<and> observation_time w \<le> T
               \<and> col w ''wave_height_sig'' \<noteq> None
               \<and> (\<forall>k \<in> set WAVE_FIELDS. map_of j k =
                     (if k \<in> set (columns d) then map_option JNum (col w k) else None))"
      by blast
  qed
  have c: "(\<exists>T. (\<forall>r \<in> set (rows d). buoy_id r = bid \<longrightarrow> observation_time r \<le> T)
             \<and> (\<exists>r \<in> set (rows d). buoy_id r = bid \<and> observation_time r = T)
             \<and> (\<forall>r \<in> set (rows d). buoy_id r = bid \<and> T - 3600 \<le> observation_time r
                    \<longrightarrow> col r ''wave_height_sig'' = None))
         \<longrightarrow> (\<forall>k \<in> set WAVE_FIELDS. map_of j k = None)"
  proof
    assume "\<exists>T. (\<forall>r \<in> set (rows d). buoy_id r = bid \<longrightarrow> observation_time r \<le> T)
             \<and> (\<exists>r \<in> set (rows d). buoy_id r = bid \<and> observation_time r = T)
             \<and> (\<forall>r \<in> set (rows d). buoy_id r = bid \<and> T - 3600 \<le> observation_time r
                    \<longrightarrow> col r ''wave_height_sig'' = None)"
    then obtain T where T1: "\<forall>r \<in> set (rows d). buoy_id r = bid \<longrightarrow> observation_time r \<le> T"
      and T2: "\<exists>r \<in> set (rows d). buoy_id r = bid \<and> observation_time r = T"
      and T3: "\<forall>r \<in> set (rows d). buoy_id r = bid \<and> T - 3600 \<le> observation_time r
                    \<longrightarrow> col r ''wave_height_sig'' = None"
      by blast
    have "?T \<le> T" using T1 rt by blast
    moreover have "T \<le> ?T" using T2 mx by blast
    ultimately have "T = ?T" by simp
    then have "wave_candidates d bid ?T = []"
      using T3 by (auto simp add: wave_candidates_def filter_empty_conv)
    then have "sql_latest (wave_candidates d bid ?T) = None" by simp
    then show "\<forall>k \<in> set WAVE_FIELDS. map_of j k = None" using wf by simp
  qed
  from a b c show ?thesis by blast
qed

text \<open>
  The example table. At 59 minutes the selected row supplies its wave height and wave
  period (8, not the 9 of the later row without a wave height) and none of its NULL
  columns; at 61 minutes the only row inside the hour has a wave period but no wave
  height, and no wave field is exported.
\<close>

theorem snapshot_wave_needs_height_witness:
  "query_and_export ex_round (ex_snapshot_db (59 * 60)) = Inr (Some [(''4600146'', ex_json_59)])
   \<and> map_of [(''4600146'', ex_json_59)] ''4600146'' = Some ex_json_59
   \<and> map_of ex_json_59 ''wave_height_sig'' = Some (JNum (Fin 1.5))
   \<and> map_of ex_json_59 ''wave_period_peak'' = Some (JNum (Fin 8))
   \<and> map_of ex_json_59 ''wave_height_peak'' = None
   \<and> query_and_export ex_round (ex_snapshot_db (61 * 60)) = Inr (Some [(''4600146'', ex_json_61)])
   \<and> map_of [(''4600146'', ex_json_61)] ''4600146'' = Some ex_json_61
   \<and> (\<exists>T. (\<forall>r \<in> set (rows (ex_snapshot_db (61 * 60))).
              buoy_id r = ''4600146'' \<longrightarrow> observation_time r \<le> T)
        \<and> (\<exists>r \<in> set (rows (ex_snapshot_db (61 * 60))).
              buoy_id r = ''4600146'' \<and> observation_time r = T)
        \<and> (\<forall>r \<in> set (rows (ex_snapshot_db (61 * 60))).
              buoy_id r = ''4600146'' \<and> T - 3600 \<le> observation_time r
              \<longrightarrow> col r ''wave_height_sig'' = None)
        \<and> (\<exists>r \<in> set (rows (ex_snapshot_db (61 * 60))).
              buoy_id r = ''4600146'' \<and> T - 3600 \<le> observation_time r
              \<and> col r ''wave_period_peak'' = Some (Fin 9)))
   \<and> map_of ex_json_61 ''wave_period_peak'' = None"
proof -
  have q59: "query_and_export ex_round (ex_snapshot_db (59 * 60)) = Inr (Some [(''4600146'', ex_json_59)])"
    by (rule ex_snapshot_59)
  have q61: "query_and_export ex_round (ex_snapshot_db (61 * 60)) = Inr (Some [(''4600146'', ex_json_61)])"
    by (rule ex_snapshot_61)
  have e59: "map_of [(''4600146'', ex_json_59)] ''4600146'' = Some ex_json_59" by simp
  have e61: "map_of [(''4600146'', ex_json_61)] ''4600146'' = Some ex_json_61" by simp
  have v59: "map_of ex_json_59 ''wave_height_sig'' = Some (JNum (Fin 1.5))"
    "map_of ex_json_59 ''wave_period_peak'' = Some (JNum (Fin 8))"
    "map_of ex_json_59 ''wave_height_peak'' = None"
    by (simp_all add: ex_json_59_def)
  have h: "(\<forall>r \<in> set (rows (ex_snapshot_db (61 * 60))).
              buoy_id r = ''4600146'' \<longrightarrow> observation_time r \<le> 1704067200)
        \<and> (\<exists>r \<in> set (rows (ex_snapshot_db (61 * 60))).
              buoy_id r = ''4600146'' \<and> observation_time r = 1704067200)
        \<and> (\<forall>r \<in> set (rows (ex_snapshot_db (61 * 60))).
              buoy_id r = ''4600146'' \<and> 1704067200 - 3600 \<le> observation_time r
              \<longrightarrow> col r ''wave_height_sig'' = None)"
    by (simp add: ex_snapshot_db_def col_def)
  have p: "\<exists>r \<in> set (rows (ex_snapshot_db (61 * 60))).
              buoy_id r = ''4600146'' \<and> 1704067200 - 3600 \<le> observation_time r
              \<and> col r ''wave_period_peak'' = Some (Fin 9)"
    by (simp add: ex_snapshot_db_def col_def)
  have "\<forall>k \<in> set WAVE_FIELDS. map_of ex_json_61 k = None"
    using snapshot_wave_needs_height [OF q61 e61] h by blast
  then have v61: "map_of ex_json_61 ''wave_period_peak'' = None"
    by (simp add: WAVE_FIELDS_def)
  from h p have "\<exists>T. (\<forall>r \<in> set (rows (ex_snapshot_db (61 * 60))).
              buoy_id r = ''4600146'' \<longrightarrow> observation_time r \<le> T)
        \<and> (\<exists>r \<in> set (rows (ex_snapshot_db (61 * 60))).
              buoy_id r = ''4600146'' \<and> observation_time r = T)
        \<and> (\<forall>r \<in> set (rows (ex_snapshot_db (61 * 60))).
              buoy_id r = ''4600146'' \<and> T - 3600 \<le> observation_time r
              \<longrightarrow> col r ''wave_height_sig'' = None)
        \<and> (\<exists>r \<in> set (rows (ex_snapshot_db (61 * 60))).
              buoy_id r = ''4600146'' \<and> T - 3600 \<le> observation_time r
              \<and> col r ''wave_period_peak'' = Some (Fin 9))"
    by blast
  with q59 e59 v59 q61 e61 v61 show ?thesis by blast
qed

section \<open>Timeseries exporter: the samples of a series\<close>

lemma ex_series_run:
  "query_and_export_timeseries ex_round 1704067200 (Some ex_series_db) = Some ex_series_out"
  by code_simp

lemma sqlite_rem_3600: "sqlite_rem t 3600 = 0 \<longleftrightarrow> 3600 dvd t"
proof -
  have "sqlite_rem t 3600 = 0 \<longleftrightarrow> t = 0 \<or> \<bar>t\<bar> mod 3600 = 0"
    by (simp add: sqlite_rem_def sgn_if)
  also have "\<dots> \<longleftrightarrow> 3600 dvd \<bar>t\<bar>"
    by (auto simp add: dvd_eq_mod_eq_0)
  also have "\<dots> \<longleftrightarrow> 3600 dvd t" by simp
  finally show ?thesis .
qed

text \<open>The rows a series is made of, as a predicate.\<close>

lemma metric_rows_eq:
  "metric_rows d bid k c =
     sort_key observation_time
       [r \<leftarrow> rows d. buoy_id r = bid \<and> c \<le> observation_time r \<and> col r k \<noteq> None
                     \<and> (bid = ''4600304'' \<or> bid = ''4600303'' \<longrightarrow> 3600 dvd observation_time r)]"
proof (cases "bid = ''4600304'' \<or> bid = ''4600303''")
  case True
  then have "bid \<in> set [''4600304'', ''4600303'']" by auto
  then show ?thesis using True by (simp add: metric_rows_def sqlite_rem_3600)
next
  case False
  then have "bid \<notin> set [''4600304'', ''4600303'']" by auto
  then show ?thesis using False by (simp add: metric_rows_def)
qed

lemma fold_add_metric:
  "map_option series_data (map_of (fold (add_metric rnd d bid c) ms acc) k) =
     (if k \<in> fst ` set ms \<and> metric_rows d bid k c \<noteq> []
      then Some (map (series_point rnd k) (metric_rows d bid k c))
      else map_option series_data (map_of acc k))"
proof (induction ms arbitrary: acc)
  case Nil
  then show ?case by simp
next
  case (Cons m ms)
  obtain mk name unit where m: "m = (mk, name, unit)" by (cases m)
  have step: "map_option series_data (map_of (add_metric rnd d bid c m acc) k) =
      (if k = mk \<and> metric_rows d bid k c \<noteq> []
       then Some (map (series_point rnd k) (metric_rows d bid k c))
       else map_option series_data (map_of acc k))"
    by (cases "metric_rows d bid mk c") (auto simp add: add_metric_def m map_of_dict_set)
  show ?case
    by (simp only: fold_simps Cons.IH step) (auto simp add: m)
qed

lemma fold_add_station:
  "map_option timeseries (map_of (fold (add_station rnd d c av) bs acc) bid) =
     (if bid \<in> fst ` set bs \<and> station_timeseries rnd d c av bid \<noteq> []
      then Some (station_timeseries rnd d c av bid)
      else map_option timeseries (map_of acc bid))"
proof (induction bs arbitrary: acc)
  case Nil
  then show ?case by simp
next
  case (Cons b bs)
  obtain i name loc where b: "b = (i, name, loc)" by (cases b)
  have step: "map_option timeseries (map_of (add_station rnd d c av b acc) bid) =
      (if bid = i \<and> station_timeseries rnd d c av bid \<noteq> []
       then Some (station_timeseries rnd d c av bid)
       else map_option timeseries (map_of acc bid))"
    by (auto simp add: add_station_def b Let_def map_of_dict_set)
  show ?case
    by (simp only: fold_simps Cons.IH step) (auto simp add: b)
qed

lemma station_series:
  assumes "k \<in> fst ` set av"
  shows "(case map_of (station_timeseries rnd d c av bid) k of None \<Rightarrow> [] | Some ms \<Rightarrow> series_data ms)
         = map (series_point rnd k) (metric_rows d bid k c)"
proof -
  have "map_option series_data (map_of (station_timeseries rnd d c av bid) k) =
     (if metric_rows d bid k c \<noteq> []
      then Some (map (series_point rnd k) (metric_rows d bid k c)) else None)"
    unfolding station_timeseries_def using fold_add_metric [of rnd d bid c av "[]" k] assms
    by simp
  then show ?thesis
    by (cases "map_of (station_timeseries rnd d c av bid) k") (auto split: if_splits)
qed

lemma series_of_export:
  assumes out: "query_and_export_timeseries rnd now (Some d) = Some out"
    and b: "bid \<in> fst ` set BUOYS"
    and k: "k \<in> fst ` set ALL_METRICS" and kc: "k \<in> set (columns d)"
  shows "series_of out bid k = map (series_point rnd k) (metric_rows d bid k (cutoff_timestamp now))"
proof -
  let ?c = "cutoff_timestamp now"
  let ?av = "[m \<leftarrow> ALL_METRICS. fst m \<in> set (columns d)]"
  have st: "stations out = fold (add_station rnd d ?c ?av) BUOYS []"
    using out by (auto simp add: query_and_export_timeseries_def Let_def split: if_splits)
  have kav: "k \<in> fst ` set ?av" using k kc by auto
  have ser: "(case map_of (station_timeseries rnd d ?c ?av bid) k of None \<Rightarrow> [] | Some ms \<Rightarrow> series_data ms)
         = map (series_point rnd k) (metric_rows d bid k ?c)"
    using station_series [OF kav] .
  have mo: "map_option timeseries (map_of (stations out) bid) =
     (if station_timeseries rnd d ?c ?av bid \<noteq> []
      then Some (station_timeseries rnd d ?c ?av bid) else None)"
    unfolding st using fold_add_station [of rnd d ?c ?av BUOYS "[]" bid] b by simp
  show ?thesis
  proof (cases "station_timeseries rnd d ?c ?av bid = []")
    case True
    then have "map_of (stations out) bid = None" using mo by simp
    then have "series_of out bid k = []" by (simp add: series_of_def)
    moreover have "map (series_point rnd k) (metric_rows d bid k ?c) = []"
      using ser True by simp
    ultimately show ?thesis by simp
  next
    case False
    then obtain bd where bd: "map_of (stations out) bid = Some bd"
      and ts: "timeseries bd = station_timeseries rnd d ?c ?av bid"
      using mo by (cases "map_of (stations out) bid") auto
    show ?thesis using ser bd ts by (simp add: series_of_def)
  qed
qed

lemma cutoff_le_in_window: "in_window now t \<Longrightarrow> cutoff_timestamp now \<le> t"
proof -
  assume "in_window now t"
  then have x: "now - 24 * 3600 \<le> real_of_int t" by (simp add: in_window_def)
  show ?thesis
  proof (cases "0 \<le> now - 24 * 3600")
    case True
    have "\<lfloor>now - 24 * 3600\<rfloor> \<le> \<lfloor>real_of_int t\<rfloor>" using x by (rule floor_mono)
    then have "\<lfloor>now - 24 * 3600\<rfloor> \<le> t" by (simp only: floor_of_int)
    then show ?thesis using True by (simp only: cutoff_timestamp_def py_int_def if_True)
  next
    case False
    have "\<lceil>now - 24 * 3600\<rceil> \<le> \<lceil>real_of_int t\<rceil>" using x by (rule ceiling_mono)
    then have "\<lceil>now - 24 * 3600\<rceil> \<le> t" by (simp only: ceiling_of_int)
    then show ?thesis using False by (simp only: cutoff_timestamp_def py_int_def if_False)
  qed
qed

text \<open>
  C5 (as the code has it). For every station and metric of the export, the series is
  ordered by ascending time and consists of exactly the stored rows of the station whose
  value is not NULL and whose time is at or after the truncated start of the window,
  restricted for the stations 4600304 and 4600303 to times divisible by 3600. The query
  has no upper bound; every such row inside the last 24 hours is in the series.
\<close>

theorem series_samples:
  assumes out: "query_and_export_timeseries rnd now (Some d) = Some out"
    and b: "bid \<in> fst ` set BUOYS"
    and k: "k \<in> fst ` set ALL_METRICS" and kc: "k \<in> set (columns d)"
  shows "sorted (map fst (series_of out bid k))
    \<and> set (map fst (series_of out bid k)) =
        observation_time ` {r \<in> set (rows d). buoy_id r = bid
            \<and> cutoff_timestamp now \<le> observation_time r \<and> col r k \<noteq> None
            \<and> (bid = ''4600304'' \<or> bid = ''4600303'' \<longrightarrow> 3600 dvd observation_time r)}
    \<and> length (series_of out bid k) =
        length [r \<leftarrow> rows d. buoy_id r = bid
            \<and> cutoff_timestamp now \<le> observation_time r \<and> col r k \<noteq> None
            \<and> (bid = ''4600304'' \<or> bid = ''4600303'' \<longrightarrow> 3600 dvd observation_time r)]
    \<and> (\<forall>r \<in> set (rows d). buoy_id r = bid \<and> in_window now (observation_time r)
            \<and> col r k \<noteq> None
            \<and> (bid = ''4600304'' \<or> bid = ''4600303'' \<longrightarrow> 3600 dvd observation_time r)
          \<longrightarrow> observation_time r \<in> set (map fst (series_of out bid k)))"
proof -
  let ?Q = "\<lambda>r. buoy_id r = bid \<and> cutoff_timestamp now \<le> observation_time r \<and> col r k \<noteq> None
            \<and> (bid = ''4600304'' \<or> bid = ''4600303'' \<longrightarrow> 3600 dvd observation_time r)"
  have "series_of out bid k = map (series_point rnd k) (metric_rows d bid k (cutoff_timestamp now))"
    using series_of_export [OF out b k kc] .
  then have times: "map fst (series_of out bid k)
      = map observation_time (sort_key observation_time (filter ?Q (rows d)))"
    by (simp add: metric_rows_eq series_point_def comp_def)
  have len: "length (series_of out bid k) = length (filter ?Q (rows d))"
    using arg_cong [OF times, of length] by simp
  have s1: "sorted (map fst (series_of out bid k))"
    unfolding times by (rule sorted_sort_key)
  have s2: "set (map fst (series_of out bid k)) = observation_time ` {r \<in> set (rows d). ?Q r}"
    unfolding times by (simp add: set_sort)
  have s3: "\<forall>r \<in> set (rows d). buoy_id r = bid \<and> in_window now (observation_time r)
            \<and> col r k \<noteq> None
            \<and> (bid = ''4600304'' \<or> bid = ''4600303'' \<longrightarrow> 3600 dvd observation_time r)
          \<longrightarrow> observation_time r \<in> set (map fst (series_of out bid k))"
    unfolding s2 using cutoff_le_in_window by blast
  from s1 s2 len s3 show ?thesis by blast
qed

text \<open>
  The example table, exported at 1704067200. Station 4600304 reports every ten minutes:
  its two hourly samples inside the last 24 hours are emitted, the sample ten minutes past
  the hour is not. Station 4600146 keeps its sample ten minutes past the hour and drops
  the one that is 25 hours old.
\<close>

theorem series_samples_witness:
  "query_and_export_timeseries ex_round 1704067200 (Some ex_series_db) = Some ex_series_out
   \<and> ''4600304'' \<in> fst ` set BUOYS \<and> ''4600146'' \<in> fst ` set BUOYS
   \<and> ''air_temp'' \<in> fst ` set ALL_METRICS \<and> ''air_temp'' \<in> set (columns ex_series_db)
   \<and> sorted (map fst (series_of ex_series_out ''4600304'' ''air_temp''))
   \<and> map fst (series_of ex_series_out ''4600304'' ''air_temp'')
       = [1704067200 - 7200, 1704067200 - 3600, 1704067200 + 3600]
   \<and> sorted (map fst (series_of ex_series_out ''4600146'' ''air_temp''))
   \<and> map fst (series_of ex_series_out ''4600146'' ''air_temp'') = [1704067200 - 7200 + 600]"
proof -
  have q: "query_and_export_timeseries ex_round 1704067200 (Some ex_series_db) = Some ex_series_out"
    by (rule ex_series_run)
  have b1: "''4600304'' \<in> fst ` set BUOYS" and b2: "''4600146'' \<in> fst ` set BUOYS"
    by (simp_all add: BUOYS_def)
  have k: "''air_temp'' \<in> fst ` set ALL_METRICS" by (simp add: ALL_METRICS_def)
  have kc: "''air_temp'' \<in> set (columns ex_series_db)"
    by (simp add: ex_series_db_def TABLE_COLUMNS_def EXPECTED_FIELDS_def)
  have s1: "sorted (map fst (series_of ex_series_out ''4600304'' ''air_temp''))"
    using series_samples [OF q b1 k kc] by blast
  have s2: "sorted (map fst (series_of ex_series_out ''4600146'' ''air_temp''))"
    using series_samples [OF q b2 k kc] by blast
  have v1: "map fst (series_of ex_series_out ''4600304'' ''air_temp'')
       = [1704067200 - 7200, 1704067200 - 3600, 1704067200 + 3600]"
    by (simp add: series_of_def ex_series_out_def)
  have v2: "map fst (series_of ex_series_out ''4600146'' ''air_temp'') = [1704067200 - 7200 + 600]"
    by (simp add: series_of_def ex_series_out_def)
  from q b1 b2 k kc s1 s2 v1 v2 show ?thesis by blast
qed

text \<open>
  C5 (as the specification states it) fails on the same table: the series of station
  4600304 contains the sample stamped one hour after the export, which is not inside the
  trailing 24 hours.
\<close>

theorem series_sample_after_window:
  "query_and_export_timeseries ex_round 1704067200 (Some ex_series_db) = Some ex_series_out
   \<and> (1704067200 + 3600, JNum (Fin 5)) \<in> set (series_of ex_series_out ''4600304'' ''air_temp'')
   \<and> \<not> in_window 1704067200 (1704067200 + 3600)"
proof -
  have q: "query_and_export_timeseries ex_round 1704067200 (Some ex_series_db) = Some ex_series_out"
    by (rule ex_series_run)
  have m: "(1704067200 + 3600, JNum (Fin 5)) \<in> set (series_of ex_series_out ''4600304'' ''air_temp'')"
    by (simp add: series_of_def ex_series_out_def)
  have w: "\<not> in_window 1704067200 (1704067200 + 3600)"
    by (simp add: in_window_def)
  from q m w show ?thesis by blast
qed

section \<open>Timeseries exporter: the lock file\<close>



end
